theory Spec2Isabelle
  imports Main
begin

section \<open>Python values used by the soft-check modules\<close>

text \<open>
  A class is identified by its name and carries the names of its proper ancestors (its
  method resolution order without itself). \<open>issubclass(c, d)\<close> on two classes holds when
  \<open>d\<close> is \<open>c\<close> itself or one of its ancestors.
\<close>

datatype pyclass = PyClass (cname: string) (ancestors: "string list")

definition subclass_of :: "pyclass \<Rightarrow> pyclass \<Rightarrow> bool" where
  "subclass_of c d = (cname d \<in> set (cname c # ancestors c))"

definition AssertionError :: pyclass where
  "AssertionError = PyClass ''AssertionError'' [''Exception'', ''BaseException'', ''object'']"

definition TypeError :: pyclass where
  "TypeError = PyClass ''TypeError'' [''Exception'', ''BaseException'', ''object'']"

definition ValueError :: pyclass where
  "ValueError = PyClass ''ValueError'' [''Exception'', ''BaseException'', ''object'']"

definition LookupError :: pyclass where
  "LookupError = PyClass ''LookupError'' [''Exception'', ''BaseException'', ''object'']"

definition KeyError :: pyclass where
  "KeyError = PyClass ''KeyError'' [''LookupError'', ''Exception'', ''BaseException'', ''object'']"

text \<open>
  An exception instance: its class and the text \<open>str(exc)\<close> gives. A call either returns
  a value or raises an exception.
\<close>

datatype pyexc = PyExc (exc_type: pyclass) (exc_str: string)

datatype 'a result = Returned 'a | Raised pyexc

text \<open>
  The objects handed to \<open>log_failure\<close> as \<open>msg\<close>: a string, an exception instance, or
  \<open>None\<close>. \<open>py_str\<close> is Python's \<open>str()\<close> on them.
\<close>

datatype pyval = PyNone | PyStr string | PyExcVal pyexc

fun py_str :: "pyval \<Rightarrow> string" where
  "py_str PyNone = ''None''"
| "py_str (PyStr s) = s"
| "py_str (PyExcVal e) = exc_str e"

text \<open>
  \<open>str.strip()\<close>: leading and trailing whitespace is removed. The whitespace characters
  are those of \<open>str.isspace\<close> below code point 256.
\<close>

definition is_space :: "char \<Rightarrow> bool" where
  "is_space c = (c \<in> {CHR 0x09, CHR 0x0A, CHR 0x0B, CHR 0x0C, CHR 0x0D,
                      CHR 0x1C, CHR 0x1D, CHR 0x1E, CHR 0x1F, CHR 0x20, CHR 0x85, CHR 0xA0})"

definition strip :: "string \<Rightarrow> string" where
  "strip s = rev (dropWhile is_space (rev (dropWhile is_space s)))"

text \<open>Decimal rendering of an integer, as an f-string renders an \<open>int\<close>.\<close>

definition digit_char :: "nat \<Rightarrow> char" where
  "digit_char d = ''0123456789'' ! d"

fun str_nat :: "nat \<Rightarrow> string" where
  "str_nat n = (if n < 10 then [digit_char n]
                else str_nat (n div 10) @ [digit_char (n mod 10)])"

definition str_int :: "int \<Rightarrow> string" where
  "str_int i = (if i < 0 then CHR ''-'' # str_nat (nat (- i)) else str_nat (nat i))"

section \<open>Module state\<close>

text \<open>
  The module-level variables of \<open>check_log\<close>, \<open>check_raises\<close>, \<open>context_manager\<close> and
  \<open>pseudo_traceback\<close>, and the \<open>msg\<close> attribute of the \<open>check\<close> instance. Python names are
  case sensitive: \<open>_STOP_ON_FAIL\<close> and \<open>_stop_on_fail\<close> are two variables, so both are
  fields (the leading underscore is dropped). The lower-case attributes exist only once
  \<open>pytest_configure\<close> has assigned them; before that they are shown as \<open>False\<close>,
  \<open>None\<close> and the empty string, and no function reads them.
\<close>

record py_state =
  SHOULD_USE_COLOR :: bool
  STOP_ON_FAIL :: bool
  DEFAULT_MAX_FAIL :: "int option"
  DEFAULT_MAX_REPORT :: "int option"
  DEFAULT_MAX_TB :: "int option"
  MAX_FAIL :: "int option"
  MAX_REPORT :: "int option"
  MAX_TB :: "int option"
  NUM_FAILURES :: int
  failures :: "string list"
  should_use_color :: bool
  stop_on_fail :: bool
  default_max_fail :: "int option"
  default_max_report :: "int option"
  default_max_tb :: "int option"
  raises_STOP_ON_FAIL :: bool
  raises_stop_on_fail :: bool
  cm_STOP_ON_FAIL :: bool
  cm_stop_on_fail :: bool
  traceback_style :: string
  check_msg :: "string option"

definition COLOR_RED :: string where
  "COLOR_RED = CHR 0x1B # ''[31m''"

definition COLOR_RESET :: string where
  "COLOR_RESET = CHR 0x1B # ''[0m''"

text \<open>The state right after the modules have been imported.\<close>

definition initial_state :: py_state where
  "initial_state = \<lparr>
     SHOULD_USE_COLOR = False, STOP_ON_FAIL = False,
     DEFAULT_MAX_FAIL = None, DEFAULT_MAX_REPORT = None, DEFAULT_MAX_TB = None,
     MAX_FAIL = None, MAX_REPORT = None, MAX_TB = None,
     NUM_FAILURES = 0, failures = [],
     should_use_color = False, stop_on_fail = False,
     default_max_fail = None, default_max_report = None, default_max_tb = None,
     raises_STOP_ON_FAIL = False, raises_stop_on_fail = False,
     cm_STOP_ON_FAIL = False, cm_stop_on_fail = False,
     traceback_style = [], check_msg = None \<rparr>"

section \<open>check\_log\<close>

definition clear_failures :: "py_state \<Rightarrow> py_state" where
  "clear_failures s = s\<lparr> failures := [], NUM_FAILURES := 0,
     MAX_FAIL := DEFAULT_MAX_FAIL s, MAX_REPORT := DEFAULT_MAX_REPORT s,
     MAX_TB := DEFAULT_MAX_TB s \<rparr>"

definition get_failures :: "py_state \<Rightarrow> string list" where
  "get_failures s = failures s"

text \<open>\<open>bool(get_failures())\<close>: a list is truthy when it is not empty.\<close>

definition any_failures :: "py_state \<Rightarrow> bool" where
  "any_failures s = (get_failures s \<noteq> [])"

text \<open>Truthiness of an optional integer: \<open>None\<close> and \<open>0\<close> are falsy.\<close>

fun truthy :: "int option \<Rightarrow> bool" where
  "truthy None = False"
| "truthy (Some k) = (k \<noteq> 0)"

text \<open>
  \<open>log_failure(msg, check_str)\<close>. The counter is incremented and the message appended
  before either \<open>assert\<close> runs, so the returned state holds them also when the call raises.
  \<open>assert c, m\<close> raises \<open>AssertionError(m)\<close> when \<open>c\<close> is false.
\<close>

definition log_failure :: "pyval \<Rightarrow> string \<Rightarrow> py_state \<Rightarrow> unit result \<times> py_state" where
  "log_failure msg check_str s =
    (let s1 = s\<lparr> NUM_FAILURES := NUM_FAILURES s + 1 \<rparr>;
         msg1 = strip (py_str msg);
         msg2 = (if check_str \<noteq> [] then msg1 @ '': '' @ check_str else msg1);
         s2 = (if MAX_REPORT s1 = None \<or> NUM_FAILURES s1 \<le> the (MAX_REPORT s1)
               then (let msg3 = (if SHOULD_USE_COLOR s1 then COLOR_RED @ msg2 @ COLOR_RESET
                                 else msg2)
                     in s1\<lparr> failures := failures s1 @ [msg3] \<rparr>)
               else s1);
         stop = (if STOP_ON_FAIL s2
                 then Raised (PyExc AssertionError ''Stopping on first failure'')
                 else Returned ())
     in if truthy (MAX_FAIL s2) \<and> NUM_FAILURES s2 \<ge> the (MAX_FAIL s2)
        then (let assert_msg = ''pytest-check max fail of '' @ str_int (NUM_FAILURES s2)
                                 @ '' reached''
              in if NUM_FAILURES s2 < the (MAX_FAIL s2) then (stop, s2)
                 else (Raised (PyExc AssertionError assert_msg), s2))
        else (stop, s2))"

text \<open>
  The string \<open>log_failure\<close> builds for a failure, given the colour flag: the trimmed
  message, the detail after a colon when there is one, wrapped in the colour codes when
  colour is on.
\<close>

definition failure_text :: "bool \<Rightarrow> pyval \<Rightarrow> string \<Rightarrow> string" where
  "failure_text color msg check_str =
    (let plain = (if check_str \<noteq> [] then strip (py_str msg) @ '': '' @ check_str
                  else strip (py_str msg))
     in if color then COLOR_RED @ plain @ COLOR_RESET else plain)"

text \<open>
  A test body that records the failures of a list one after the other. As in Python, the
  first call that raises ends the sequence: the later calls do not run.
\<close>

fun log_failures :: "(pyval \<times> string) list \<Rightarrow> py_state \<Rightarrow> unit result \<times> py_state" where
  "log_failures [] s = (Returned (), s)"
| "log_failures ((msg, check_str) # rest) s =
     (case log_failure msg check_str s of
        (Raised e, s') \<Rightarrow> (Raised e, s')
      | (Returned _, s') \<Rightarrow> log_failures rest s')"

section \<open>The with statement\<close>

text \<open>
  \<open>with cm: body\<close>. \<open>__exit__\<close> receives the exception the body raised, or \<open>None\<close>.
  An exception raised by \<open>__exit__\<close> itself propagates; otherwise the body's exception
  is suppressed when \<open>__exit__\<close> returned a true value and re-raised when it did not
  (\<open>None\<close> and \<open>False\<close> are both shown as \<open>False\<close>).
\<close>

definition with_stmt ::
  "(pyexc option \<Rightarrow> py_state \<Rightarrow> bool result \<times> py_state) \<Rightarrow>
   (py_state \<Rightarrow> unit result \<times> py_state) \<Rightarrow> py_state \<Rightarrow> unit result \<times> py_state" where
  "with_stmt exit_fn body s =
     (case body s of
        (Returned _, s1) \<Rightarrow>
          (case exit_fn None s1 of
             (Raised e, s2) \<Rightarrow> (Raised e, s2)
           | (Returned _, s2) \<Rightarrow> (Returned (), s2))
      | (Raised x, s1) \<Rightarrow>
          (case exit_fn (Some x) s1 of
             (Raised e, s2) \<Rightarrow> (Raised e, s2)
           | (Returned suppress, s2) \<Rightarrow>
               if suppress then (Returned (), s2) else (Raised x, s2)))"

text \<open>Two bodies for a block: one that does nothing, and one that raises a given exception.\<close>

definition py_pass :: "py_state \<Rightarrow> unit result \<times> py_state" where
  "py_pass s = (Returned (), s)"

definition py_raise :: "pyexc \<Rightarrow> py_state \<Rightarrow> unit result \<times> py_state" where
  "py_raise e s = (Raised e, s)"

section \<open>context\_manager\<close>

definition newline :: char where
  "newline = CHR 0x0A"

text \<open>
  \<open>CheckContextManager.__exit__\<close>, on the instance whose \<open>msg\<close> attribute is the field
  \<open>check_msg\<close>. When \<open>log_failure\<close> raises, the statements after it do not run.
\<close>

definition CheckContextManager_exit :: "pyexc option \<Rightarrow> py_state \<Rightarrow> bool result \<times> py_state" where
  "CheckContextManager_exit exc s =
     (case exc of
        Some exc_val \<Rightarrow>
          if subclass_of (exc_type exc_val) AssertionError
          then (if cm_STOP_ON_FAIL s then (Returned False, s\<lparr> check_msg := None \<rparr>)
                else (case (case check_msg s of
                              Some m \<Rightarrow> log_failure (PyStr (m @ [newline] @ exc_str exc_val)) [] s
                            | None \<Rightarrow> log_failure (PyExcVal exc_val) [] s) of
                        (Raised e, s') \<Rightarrow> (Raised e, s')
                      | (Returned _, s') \<Rightarrow> (Returned True, s'\<lparr> check_msg := None \<rparr>)))
          else (Returned False, s\<lparr> check_msg := None \<rparr>)
      | None \<Rightarrow> (Returned False, s\<lparr> check_msg := None \<rparr>))"

definition CheckContextManager_call :: "string option \<Rightarrow> py_state \<Rightarrow> py_state" where
  "CheckContextManager_call msg s = s\<lparr> check_msg := msg \<rparr>"

definition set_max_fail :: "int option \<Rightarrow> py_state \<Rightarrow> py_state" where
  "set_max_fail max_failures s = s\<lparr> MAX_FAIL := max_failures \<rparr>"

definition set_max_report :: "int option \<Rightarrow> py_state \<Rightarrow> py_state" where
  "set_max_report max_reported_failures s = s\<lparr> MAX_REPORT := max_reported_failures \<rparr>"

definition set_max_tb :: "int option \<Rightarrow> py_state \<Rightarrow> py_state" where
  "set_max_tb max_tb_limit s = s\<lparr> MAX_TB := max_tb_limit \<rparr>"

text \<open>A checked block: \<open>with check: body\<close>.\<close>

definition with_check :: "(py_state \<Rightarrow> unit result \<times> py_state) \<Rightarrow> py_state \<Rightarrow> unit result \<times> py_state" where
  "with_check body s = with_stmt CheckContextManager_exit body s"

section \<open>check\_raises\<close>

text \<open>
  What can be passed where exception kinds are expected: a class, a tuple, or some other
  object that is neither a class nor iterable (given by the name of its type).
\<close>

datatype pyobj = Type pyclass | Obj string | Tuple "pyobj list"

fun is_type :: "pyobj \<Rightarrow> bool" where
  "is_type (Type c) = True"
| "is_type (Obj tn) = False"
| "is_type (Tuple xs) = False"

text \<open>
  \<open>issubclass(c, x)\<close> for a class \<open>c\<close>: \<open>x\<close> is a class, or a tuple whose entries are
  tried from left to right until one holds; an entry that is neither raises \<open>TypeError\<close>.
\<close>

fun issubclass :: "pyclass \<Rightarrow> pyobj \<Rightarrow> bool result"
  and issubclass_any :: "pyclass \<Rightarrow> pyobj list \<Rightarrow> bool result" where
  "issubclass c (Type d) = Returned (subclass_of c d)"
| "issubclass c (Obj tn) =
     Raised (PyExc TypeError ''issubclass() arg 2 must be a class, a tuple of classes, or a union'')"
| "issubclass c (Tuple xs) = issubclass_any c xs"
| "issubclass_any c [] = Returned False"
| "issubclass_any c (x # xs) =
     (case issubclass c x of
        Raised e \<Rightarrow> Raised e
      | Returned b \<Rightarrow> if b then Returned True else issubclass_any c xs)"

record CheckRaisesContext =
  expected_excs :: "pyobj list"
  msg :: "string option"

text \<open>\<open>CheckRaisesContext(*expected_excs, msg=msg)\<close>: the arguments are stored as given.\<close>

definition CheckRaisesContext_init :: "pyobj list \<Rightarrow> string option \<Rightarrow> CheckRaisesContext" where
  "CheckRaisesContext_init excs m = \<lparr> expected_excs = excs, msg = m \<rparr>"

text \<open>
  \<open>CheckRaisesContext.__exit__\<close>. \<open>self.msg if self.msg else exc_val\<close> takes the custom
  message when it is a non-empty string, and otherwise the exception instance, which is
  \<open>None\<close> when the body raised nothing.
\<close>

definition CheckRaisesContext_exit ::
  "CheckRaisesContext \<Rightarrow> pyexc option \<Rightarrow> py_state \<Rightarrow> bool result \<times> py_state" where
  "CheckRaisesContext_exit self exc s =
     (case (case exc of
              None \<Rightarrow> Returned False
            | Some exc_val \<Rightarrow> issubclass_any (exc_type exc_val) (expected_excs self)) of
        Raised e \<Rightarrow> (Raised e, s)
      | Returned expected \<Rightarrow>
          if expected then (Returned True, s)
          else if \<not> raises_STOP_ON_FAIL s
          then (case log_failure
                       (case msg self of
                          Some m \<Rightarrow> if m \<noteq> [] then PyStr m
                                     else (case exc of None \<Rightarrow> PyNone | Some v \<Rightarrow> PyExcVal v)
                        | None \<Rightarrow> (case exc of None \<Rightarrow> PyNone | Some v \<Rightarrow> PyExcVal v))
                       [] s of
                  (Raised e, s') \<Rightarrow> (Raised e, s')
                | (Returned _, s') \<Rightarrow> (Returned True, s'))
          else (Returned False, s))"

text \<open>
  The validation in \<open>raises\<close>: \<open>isinstance(exc, type) or issubclass(exc, BaseException)\<close>
  for each entry in turn. A class makes the left operand true; for anything else the right
  operand runs and \<open>issubclass\<close> rejects its first argument.
\<close>

definition kind_check :: "pyobj \<Rightarrow> bool result" where
  "kind_check exc =
     (case exc of
        Type c \<Rightarrow> Returned True
      | _ \<Rightarrow> Raised (PyExc TypeError ''issubclass() arg 1 must be a class''))"

fun all_kind_checks :: "pyobj list \<Rightarrow> bool result" where
  "all_kind_checks [] = Returned True"
| "all_kind_checks (exc # rest) =
     (case kind_check exc of
        Raised e \<Rightarrow> Raised e
      | Returned b \<Rightarrow> if b then all_kind_checks rest else Returned False)"

text \<open>The first positional argument after the expected kinds, when there is one.\<close>

datatype posarg = Callable "py_state \<Rightarrow> unit result \<times> py_state" | NotCallable

datatype raises_ret = Handle CheckRaisesContext | NoValue

text \<open>\<open>repr\<close> of the keyword arguments left after \<open>msg\<close> was taken out, each value given by its \<open>repr\<close>.\<close>

fun repr_items :: "(string \<times> string) list \<Rightarrow> string" where
  "repr_items [] = []"
| "repr_items [(k, v)] = [CHR 0x27] @ k @ [CHR 0x27] @ '': '' @ v"
| "repr_items ((k, v) # rest) = [CHR 0x27] @ k @ [CHR 0x27] @ '': '' @ v @ '', '' @ repr_items rest"

definition repr_dict :: "(string \<times> string) list \<Rightarrow> string" where
  "repr_dict kwargs = ''{'' @ repr_items kwargs @ ''}''"

text \<open>
  \<open>raises(expected_exception, *args, **kwargs)\<close>: \<open>msg\<close> is the keyword argument of that
  name, \<open>kwargs\<close> the other keyword arguments, \<open>args\<close> the callable to run (its own
  arguments are part of the callable here) or nothing.
\<close>

definition raises ::
  "pyobj \<Rightarrow> string option \<Rightarrow> (string \<times> string) list \<Rightarrow> posarg option \<Rightarrow> py_state \<Rightarrow>
   raises_ret result \<times> py_state" where
  "raises expected_exception m kwargs args s =
     (case (case expected_exception of
              Type c \<Rightarrow> Returned [expected_exception]
            | Tuple xs \<Rightarrow> Returned xs
            | Obj tn \<Rightarrow> Raised (PyExc TypeError
                         ([CHR 0x27] @ tn @ [CHR 0x27] @ '' object is not iterable''))) of
        Raised e \<Rightarrow> (Raised e, s)
      | Returned excepted_exceptions \<Rightarrow>
          (case all_kind_checks excepted_exceptions of
             Raised e \<Rightarrow> (Raised e, s)
           | Returned ok \<Rightarrow>
               if \<not> ok then (Raised (PyExc AssertionError []), s)
               else (case args of
                       None \<Rightarrow>
                         if kwargs \<noteq> []
                         then (Raised (PyExc AssertionError
                                 (''Unexpected kwargs for soft_check.raises: '' @ repr_dict kwargs)), s)
                         else (Returned (Handle (CheckRaisesContext_init [expected_exception] m)), s)
                     | Some NotCallable \<Rightarrow> (Raised (PyExc AssertionError []), s)
                     | Some (Callable func) \<Rightarrow>
                         (case with_stmt
                                 (CheckRaisesContext_exit
                                    (CheckRaisesContext_init [expected_exception] m))
                                 func s of
                            (Raised e, s') \<Rightarrow> (Raised e, s')
                          | (Returned _, s') \<Rightarrow> (Returned NoValue, s')))))"

section \<open>plugin\<close>

text \<open>
  The values \<open>pytest_configure\<close> reads: whether standard output is a terminal, and the
  options of the run.
\<close>

record config =
  isatty :: bool
  color :: string
  maxfail :: int
  tbstyle :: string
  check_max_fail :: "int option"
  check_max_report :: "int option"
  check_max_tb :: "int option"
  check_no_tb :: bool

text \<open>
  \<open>pytest_configure\<close> assigns the lower-case attributes \<open>should_use_color\<close>,
  \<open>_stop_on_fail\<close>, \<open>_traceback_style\<close>, \<open>_default_max_fail\<close>, \<open>_default_max_report\<close> and
  \<open>_default_max_tb\<close> of the modules. The deprecation warning is not part of the state.
\<close>

definition pytest_configure :: "config \<Rightarrow> py_state \<Rightarrow> py_state" where
  "pytest_configure cfg s =
     (let stop = (maxfail cfg = 1);
          s1 = s\<lparr> should_use_color :=
                   (isatty cfg \<and> color cfg = ''auto'') \<or> color cfg = ''yes'' \<rparr>;
          s2 = s1\<lparr> cm_stop_on_fail := stop, raises_stop_on_fail := stop,
                   stop_on_fail := stop \<rparr>;
          s3 = s2\<lparr> traceback_style := tbstyle cfg \<rparr>;
          s4 = s3\<lparr> default_max_fail := check_max_fail cfg,
                   default_max_report := check_max_report cfg,
                   default_max_tb := check_max_tb cfg \<rparr>
      in if check_no_tb cfg then s4\<lparr> default_max_tb := Some 0 \<rparr> else s4)"

text \<open>
  The first two statements of \<open>pytest_runtest_makereport\<close>: the stored list is read, then
  the log is reset. The list that was read is what the report is built from.
\<close>

definition drain :: "py_state \<Rightarrow> string list \<times> py_state" where
  "drain s = (let fs = get_failures s; s' = clear_failures s in (fs, s'))"

section \<open>Invariant of the failure log\<close>

text \<open>
  What holds of a log that was reset and then filled by \<open>log_failure\<close> under one
  reporting cap: the counter is not negative, and a message is stored exactly when a
  failure was counted and the cap allows at least one message.
\<close>

definition log_inv :: "py_state \<Rightarrow> bool" where
  "log_inv s = (0 \<le> NUM_FAILURES s \<and>
     ((failures s \<noteq> []) = (0 < NUM_FAILURES s \<and> (case MAX_REPORT s of None \<Rightarrow> True | Some r \<Rightarrow> 1 \<le> r))))"

section \<open>Properties of the failure log\<close>

text \<open>The whole effect of one call of \<open>log_failure\<close>: its outcome and the state it leaves.\<close>

lemma log_failure_eq:
  "log_failure m c s =
     (if truthy (MAX_FAIL s) \<and> NUM_FAILURES s + 1 \<ge> the (MAX_FAIL s)
      then Raised (PyExc AssertionError
             (''pytest-check max fail of '' @ str_int (NUM_FAILURES s + 1) @ '' reached''))
      else if STOP_ON_FAIL s
      then Raised (PyExc AssertionError ''Stopping on first failure'')
      else Returned (),
      s\<lparr> NUM_FAILURES := NUM_FAILURES s + 1,
         failures := (if MAX_REPORT s = None \<or> NUM_FAILURES s + 1 \<le> the (MAX_REPORT s)
                      then failures s @ [failure_text (SHOULD_USE_COLOR s) m c]
                      else failures s) \<rparr>)"
  by (simp add: log_failure_def failure_text_def Let_def)

lemma log_failure_inv:
  "log_inv s \<Longrightarrow> log_inv (snd (log_failure m c s))"
  by (auto simp: log_inv_def log_failure_eq split: option.splits)

lemma log_failure_MAX_REPORT: "MAX_REPORT (snd (log_failure m c s)) = MAX_REPORT s"
  by (simp add: log_failure_eq)

lemma log_failures_inv:
  "log_inv s \<Longrightarrow> log_inv (snd (log_failures ms s)) \<and> MAX_REPORT (snd (log_failures ms s)) = MAX_REPORT s"
proof (induction ms arbitrary: s)
  case Nil
  then show ?case by simp
next
  case (Cons x ms)
  obtain m c where x: "x = (m, c)" by (cases x)
  obtain r s1 where l: "log_failure m c s = (r, s1)" by (cases "log_failure m c s")
  have i1: "log_inv s1" and r1: "MAX_REPORT s1 = MAX_REPORT s"
    using log_failure_inv [OF Cons.prems, of m c] log_failure_MAX_REPORT [of m c s] l by simp_all
  show ?case
  proof (cases r)
    case (Returned u)
    then show ?thesis using Cons.IH [OF i1] x l r1 by simp
  next
    case (Raised e)
    then show ?thesis using i1 r1 x l by simp
  qed
qed

lemma log_failures_quiet:
  assumes "\<not> truthy (MAX_FAIL s)" and "\<not> STOP_ON_FAIL s"
  shows "fst (log_failures ms s) = Returned () \<and>
         NUM_FAILURES (snd (log_failures ms s)) = NUM_FAILURES s + int (length ms) \<and>
         failures (snd (log_failures ms s)) =
           failures s @ map (\<lambda>(m, c). failure_text (SHOULD_USE_COLOR s) m c)
             (case MAX_REPORT s of None \<Rightarrow> ms | Some r \<Rightarrow> take (nat (r - NUM_FAILURES s)) ms)"
  using assms
proof (induction ms arbitrary: s)
  case Nil
  then show ?case by (simp split: option.splits)
next
  case (Cons x ms)
  obtain m c where x: "x = (m, c)" by (cases x)
  define s1 where "s1 = snd (log_failure m c s)"
  have l: "log_failure m c s = (Returned (), s1)"
    using Cons.prems by (simp add: s1_def log_failure_eq)
  have keep: "\<not> truthy (MAX_FAIL s1)" "\<not> STOP_ON_FAIL s1" "MAX_REPORT s1 = MAX_REPORT s"
    "SHOULD_USE_COLOR s1 = SHOULD_USE_COLOR s" "NUM_FAILURES s1 = NUM_FAILURES s + 1"
    using Cons.prems by (simp_all add: s1_def log_failure_eq)
  have f1: "failures s1 =
     (if MAX_REPORT s = None \<or> NUM_FAILURES s + 1 \<le> the (MAX_REPORT s)
      then failures s @ [failure_text (SHOULD_USE_COLOR s) m c]
      else failures s)"
    by (simp add: s1_def log_failure_eq)
  note IH = Cons.IH [OF keep(1) keep(2)]
  have run: "log_failures (x # ms) s = log_failures ms s1"
    using x l by simp
  show ?case
  proof (cases "MAX_REPORT s")
    case None
    then show ?thesis using IH run keep f1 x by simp
  next
    case (Some r)
    show ?thesis
    proof (cases "NUM_FAILURES s + 1 \<le> r")
      case True
      then have "nat (r - NUM_FAILURES s) = Suc (nat (r - (NUM_FAILURES s + 1)))" by simp
      then show ?thesis using IH run keep f1 x Some True by simp
    next
      case False
      then have "nat (r - NUM_FAILURES s) = 0" "nat (r - (NUM_FAILURES s + 1)) = 0" by simp_all
      then show ?thesis using IH run keep f1 x Some False by simp
    qed
  qed
qed

lemma log_failures_below_max_fail:
  assumes "MAX_FAIL s = Some K" and "\<not> STOP_ON_FAIL s"
    and "0 \<le> NUM_FAILURES s" and "NUM_FAILURES s + int (length ms) < K"
  shows "fst (log_failures ms s) = Returned () \<and>
         NUM_FAILURES (snd (log_failures ms s)) = NUM_FAILURES s + int (length ms) \<and>
         MAX_FAIL (snd (log_failures ms s)) = Some K \<and>
         \<not> STOP_ON_FAIL (snd (log_failures ms s))"
  using assms
proof (induction ms arbitrary: s)
  case Nil
  then show ?case by simp
next
  case (Cons x ms)
  obtain m c where x: "x = (m, c)" by (cases x)
  define s1 where "s1 = snd (log_failure m c s)"
  have l: "log_failure m c s = (Returned (), s1)"
    using Cons.prems by (simp add: s1_def log_failure_eq)
  have keep: "MAX_FAIL s1 = Some K" "\<not> STOP_ON_FAIL s1" "0 \<le> NUM_FAILURES s1"
    "NUM_FAILURES s1 + int (length ms) < K" "NUM_FAILURES s1 = NUM_FAILURES s + 1"
    using Cons.prems by (simp_all add: s1_def log_failure_eq)
  show ?case
    using Cons.IH [OF keep(1) keep(2) keep(3) keep(4)] keep(5) x l by simp
qed

lemma log_failures_append:
  "log_failures (xs @ ys) s =
     (case log_failures xs s of
        (Raised e, s') \<Rightarrow> (Raised e, s')
      | (Returned u, s') \<Rightarrow> log_failures ys s')"
  by (induction xs arbitrary: s) (auto split: prod.splits result.splits)

lemma log_failures_single:
  "log_failures [(m, c)] s = log_failure m c s"
  by (cases "log_failure m c s") (auto split: result.splits)

section \<open>The failure query\<close>

text \<open>
  C1, as the code has it. The query \<open>any_failures\<close> looks at the stored messages, not at
  the counter. Stated as in the specification it fails: with a reporting cap of \<open>0\<close> one
  recorded failure is counted, no message is stored, and the query answers no.
\<close>

theorem any_failures_cap_zero_counterexample:
  "\<not> (any_failures (snd (log_failure (PyStr ''x'') []
            (set_max_report (Some 0) (clear_failures initial_state)))) =
       (0 < NUM_FAILURES (snd (log_failure (PyStr ''x'') []
            (set_max_report (Some 0) (clear_failures initial_state))))))"
  by (simp add: any_failures_def get_failures_def log_failure_eq set_max_report_def
      clear_failures_def initial_state_def)

text \<open>
  C1 (amended): for a log that starts empty (no message stored, counter \<open>0\<close>) and is filled
  by a sequence of \<open>log_failure\<close> calls, \<open>any_failures\<close> is true if and only if the
  failure counter is greater than \<open>0\<close> and the reporting cap is unset or at least \<open>1\<close>.
  Failures recorded under a cap below \<open>1\<close> are counted and the query stays false.
\<close>

theorem any_failures_iff_stored:
  assumes "NUM_FAILURES s = 0" and "failures s = []"
  shows "any_failures (snd (log_failures ms s)) =
           (0 < NUM_FAILURES (snd (log_failures ms s)) \<and>
            (case MAX_REPORT s of None \<Rightarrow> True | Some r \<Rightarrow> 1 \<le> r))"
proof -
  have "log_inv s" using assms by (simp add: log_inv_def)
  then have "log_inv (snd (log_failures ms s))" and "MAX_REPORT (snd (log_failures ms s)) = MAX_REPORT s"
    using log_failures_inv by blast+
  then show ?thesis by (simp add: any_failures_def get_failures_def log_inv_def)
qed

theorem any_failures_iff_stored_witness:
  "NUM_FAILURES (set_max_report (Some 1) (clear_failures initial_state)) = 0 \<and>
   failures (set_max_report (Some 1) (clear_failures initial_state)) = [] \<and>
   any_failures (snd (log_failures [(PyStr ''a'', []), (PyStr ''b'', [])]
      (set_max_report (Some 1) (clear_failures initial_state))))"
  using any_failures_iff_stored
    [of "set_max_report (Some 1) (clear_failures initial_state)"
        "[(PyStr ''a'', []), (PyStr ''b'', [])]"]
  by (simp add: log_failure_eq set_max_report_def clear_failures_def initial_state_def)

section \<open>Escalation at max\_fail\<close>

text \<open>
  C7: with \<open>max_fail\<close> set to \<open>K \<ge> 1\<close>, a fresh counter and stop-on-first-failure off,
  the first \<open>K - 1\<close> recorded failures return normally and the \<open>K\<close>-th call raises the
  assertion error whose text is "pytest-check max fail of K reached".
\<close>

theorem max_fail_escalates_on_kth_failure:
  assumes "MAX_FAIL s = Some K" and "1 \<le> K" and "NUM_FAILURES s = 0"
    and "\<not> STOP_ON_FAIL s" and "int (length ms) = K - 1"
  shows "fst (log_failures ms s) = Returned () \<and>
         fst (log_failures (ms @ [(m, c)]) s) =
           Raised (PyExc AssertionError
             (''pytest-check max fail of '' @ str_int K @ '' reached''))"
proof -
  have below: "NUM_FAILURES s + int (length ms) < K" using assms by simp
  have z: "0 \<le> NUM_FAILURES s" using assms by simp
  note q = log_failures_below_max_fail [OF assms(1) assms(4) z below]
  obtain s1 where r: "log_failures ms s = (Returned (), s1)"
    using q by (cases "log_failures ms s") auto
  have s1: "MAX_FAIL s1 = Some K" "NUM_FAILURES s1 = K - 1"
    using q r assms by simp_all
  have "fst (log_failure m c s1) =
      Raised (PyExc AssertionError (''pytest-check max fail of '' @ str_int K @ '' reached''))"
    using s1 assms(2) by (simp add: log_failure_eq)
  moreover have "log_failures (ms @ [(m, c)]) s = log_failure m c s1"
    using r by (simp add: log_failures_append log_failures_single del: log_failures.simps)
  ultimately show ?thesis using q by simp
qed

theorem max_fail_escalates_on_kth_failure_witness:
  "MAX_FAIL (set_max_fail (Some 2) (clear_failures initial_state)) = Some 2 \<and>
   NUM_FAILURES (set_max_fail (Some 2) (clear_failures initial_state)) = 0 \<and>
   \<not> STOP_ON_FAIL (set_max_fail (Some 2) (clear_failures initial_state)) \<and>
   fst (log_failures [(PyStr ''a'', [])]
          (set_max_fail (Some 2) (clear_failures initial_state))) = Returned () \<and>
   fst (log_failures ([(PyStr ''a'', [])] @ [(PyStr ''b'', ''detail'')])
          (set_max_fail (Some 2) (clear_failures initial_state))) =
     Raised (PyExc AssertionError ''pytest-check max fail of 2 reached'')"
  using max_fail_escalates_on_kth_failure
    [of "set_max_fail (Some 2) (clear_failures initial_state)" 2 "[(PyStr ''a'', [])]"
        "PyStr ''b''" "''detail''"]
  by (simp add: set_max_fail_def clear_failures_def initial_state_def str_int_def
      digit_char_def)

text \<open>
  C10: when the \<open>K\<close>-th recorded failure meets \<open>max_fail\<close>, the call raises the max-fail
  assertion error and the state it leaves already holds that failure: the counter is \<open>K\<close>,
  and the message of this failure is the last stored one whenever \<open>K\<close> does not exceed the
  reporting cap.
\<close>

theorem escalation_reflects_failure:
  assumes "MAX_FAIL s = Some k" and "k \<noteq> 0" and "NUM_FAILURES s = K - 1" and "k \<le> K"
  shows "fst (log_failure m c s) =
           Raised (PyExc AssertionError
             (''pytest-check max fail of '' @ str_int K @ '' reached'')) \<and>
         NUM_FAILURES (snd (log_failure m c s)) = K \<and>
         ((case MAX_REPORT s of None \<Rightarrow> True | Some r \<Rightarrow> K \<le> r) \<longrightarrow>
            failures (snd (log_failure m c s)) =
              failures s @ [failure_text (SHOULD_USE_COLOR s) m c])"
  using assms by (auto simp: log_failure_eq split: option.splits)

theorem escalation_reflects_failure_witness:
  "MAX_FAIL (snd (log_failure (PyStr ''a'') []
      (set_max_fail (Some 2) (clear_failures initial_state)))) = Some 2 \<and>
   NUM_FAILURES (snd (log_failure (PyStr ''a'') []
      (set_max_fail (Some 2) (clear_failures initial_state)))) = 2 - 1 \<and>
   fst (log_failure (PyStr ''b'') []
      (snd (log_failure (PyStr ''a'') []
        (set_max_fail (Some 2) (clear_failures initial_state))))) =
     Raised (PyExc AssertionError ''pytest-check max fail of 2 reached'') \<and>
   NUM_FAILURES (snd (log_failure (PyStr ''b'') []
      (snd (log_failure (PyStr ''a'') []
        (set_max_fail (Some 2) (clear_failures initial_state)))))) = 2 \<and>
   failures (snd (log_failure (PyStr ''b'') []
      (snd (log_failure (PyStr ''a'') []
        (set_max_fail (Some 2) (clear_failures initial_state)))))) = [''a'', ''b'']"
  using escalation_reflects_failure
    [of "snd (log_failure (PyStr ''a'') []
           (set_max_fail (Some 2) (clear_failures initial_state)))" 2 2 "PyStr ''b''" "[]"]
  by (simp add: log_failure_eq failure_text_def strip_def is_space_def set_max_fail_def
      clear_failures_def initial_state_def str_int_def digit_char_def)

section \<open>Draining the log\<close>

text \<open>
  C8, as the code has it. Stated as in the specification it fails where the cap is \<open>0\<close>:
  one failure is more than the cap, the counter shows it, and \<open>any_failures\<close> is false.
\<close>

theorem has_failures_hidden_by_cap_counterexample:
  "MAX_REPORT (set_max_report (Some 0) (clear_failures initial_state)) = Some 0 \<and>
   (0::int) < int (length [(PyStr ''x'', [])]) \<and>
   NUM_FAILURES (snd (log_failures [(PyStr ''x'', [])]
      (set_max_report (Some 0) (clear_failures initial_state)))) = 1 \<and>
   \<not> any_failures (snd (log_failures [(PyStr ''x'', [])]
      (set_max_report (Some 0) (clear_failures initial_state))))"
  by (simp add: any_failures_def get_failures_def log_failure_eq set_max_report_def
      clear_failures_def initial_state_def)

text \<open>
  C8 (amended): take a log that starts empty, with \<open>max_fail\<close> unset or \<open>0\<close> and
  stop-on-first-failure off, and record \<open>N\<close> failures. No call raises, whether or not the
  cap has been passed, and the counter is \<open>N\<close>. With \<open>max_report\<close> unset, the drain
  returns the \<open>N\<close> messages in call order. With \<open>max_report\<close> set to \<open>r\<close>, \<open>0 \<le> r < N\<close>,
  the drain returns exactly \<open>r\<close> messages, those of the first \<open>r\<close> failures, and
  \<open>any_failures\<close> is true exactly when \<open>r\<close> is at least \<open>1\<close>.
\<close>

theorem drain_after_failures:
  assumes "NUM_FAILURES s = 0" and "failures s = []"
    and "\<not> truthy (MAX_FAIL s)" and "\<not> STOP_ON_FAIL s"
  shows "fst (log_failures ms s) = Returned () \<and>
         NUM_FAILURES (snd (log_failures ms s)) = int (length ms) \<and>
         (MAX_REPORT s = None \<longrightarrow>
            fst (drain (snd (log_failures ms s))) =
              map (\<lambda>(m, c). failure_text (SHOULD_USE_COLOR s) m c) ms) \<and>
         (\<forall>r. MAX_REPORT s = Some r \<and> 0 \<le> r \<and> r < int (length ms) \<longrightarrow>
            fst (drain (snd (log_failures ms s))) =
              map (\<lambda>(m, c). failure_text (SHOULD_USE_COLOR s) m c) (take (nat r) ms) \<and>
            int (length (fst (drain (snd (log_failures ms s))))) = r \<and>
            any_failures (snd (log_failures ms s)) = (1 \<le> r))"
proof -
  note q = log_failures_quiet [OF assms(3) assms(4), of ms]
  have d: "fst (drain (snd (log_failures ms s))) = failures (snd (log_failures ms s))"
    by (simp add: drain_def get_failures_def Let_def)
  have a: "any_failures (snd (log_failures ms s)) = (failures (snd (log_failures ms s)) \<noteq> [])"
    by (simp add: any_failures_def get_failures_def)
  have p1: "fst (log_failures ms s) = Returned ()" using q by simp
  have p2: "NUM_FAILURES (snd (log_failures ms s)) = int (length ms)" using q assms(1) by simp
  have p3: "MAX_REPORT s = None \<longrightarrow>
            fst (drain (snd (log_failures ms s))) =
              map (\<lambda>(m, c). failure_text (SHOULD_USE_COLOR s) m c) ms"
    using q assms(1,2) d by simp
  have p4: "\<forall>r. MAX_REPORT s = Some r \<and> 0 \<le> r \<and> r < int (length ms) \<longrightarrow>
            fst (drain (snd (log_failures ms s))) =
              map (\<lambda>(m, c). failure_text (SHOULD_USE_COLOR s) m c) (take (nat r) ms) \<and>
            int (length (fst (drain (snd (log_failures ms s))))) = r \<and>
            any_failures (snd (log_failures ms s)) = (1 \<le> r)"
  proof (intro allI impI)
    fix r assume h: "MAX_REPORT s = Some r \<and> 0 \<le> r \<and> r < int (length ms)"
    then have f: "failures (snd (log_failures ms s)) =
        map (\<lambda>(m, c). failure_text (SHOULD_USE_COLOR s) m c) (take (nat r) ms)"
      using q assms(1,2) by simp
    have "nat r \<le> length ms" using h by linarith
    then have "min (length ms) (nat r) = nat r" by simp
    then have len: "int (length (take (nat r) ms)) = r" using h by simp
    have ne: "(take (nat r) ms \<noteq> []) = (1 \<le> r)" using h by (cases ms) auto
    show "fst (drain (snd (log_failures ms s))) =
              map (\<lambda>(m, c). failure_text (SHOULD_USE_COLOR s) m c) (take (nat r) ms) \<and>
            int (length (fst (drain (snd (log_failures ms s))))) = r \<and>
            any_failures (snd (log_failures ms s)) = (1 \<le> r)"
      using f len ne d a by simp
  qed
  show ?thesis using p1 p2 p3 p4 by blast
qed

theorem drain_after_failures_witness:
  "NUM_FAILURES (set_max_report (Some 1) (clear_failures initial_state)) = 0 \<and>
   failures (set_max_report (Some 1) (clear_failures initial_state)) = [] \<and>
   \<not> truthy (MAX_FAIL (set_max_report (Some 1) (clear_failures initial_state))) \<and>
   \<not> STOP_ON_FAIL (set_max_report (Some 1) (clear_failures initial_state)) \<and>
   MAX_REPORT (set_max_report (Some 1) (clear_failures initial_state)) = Some 1 \<and>
   (1::int) < int (length [(PyStr ''a'', []), (PyStr ''b'', ''why'')]) \<and>
   fst (log_failures [(PyStr ''a'', []), (PyStr ''b'', ''why'')]
         (set_max_report (Some 1) (clear_failures initial_state))) = Returned () \<and>
   NUM_FAILURES (snd (log_failures [(PyStr ''a'', []), (PyStr ''b'', ''why'')]
         (set_max_report (Some 1) (clear_failures initial_state)))) = 2 \<and>
   fst (drain (snd (log_failures [(PyStr ''a'', []), (PyStr ''b'', ''why'')]
         (set_max_report (Some 1) (clear_failures initial_state))))) = [''a''] \<and>
   any_failures (snd (log_failures [(PyStr ''a'', []), (PyStr ''b'', ''why'')]
         (set_max_report (Some 1) (clear_failures initial_state))))"
  using drain_after_failures
    [of "set_max_report (Some 1) (clear_failures initial_state)"
        "[(PyStr ''a'', []), (PyStr ''b'', ''why'')]"]
  by (simp add: set_max_report_def clear_failures_def initial_state_def failure_text_def
      strip_def is_space_def)

section \<open>Configuration\<close>

text \<open>
  Whatever the configuration, the values \<open>pytest_configure\<close> stores are not the ones
  \<open>clear_failures\<close> and \<open>log_failure\<close> read: after a reset the three limits are \<open>None\<close>
  and a recorded failure does not escalate.
\<close>

lemma configured_defaults_never_read:
  "MAX_FAIL (clear_failures (pytest_configure cfg initial_state)) = None \<and>
   MAX_REPORT (clear_failures (pytest_configure cfg initial_state)) = None \<and>
   MAX_TB (clear_failures (pytest_configure cfg initial_state)) = None \<and>
   \<not> STOP_ON_FAIL (clear_failures (pytest_configure cfg initial_state)) \<and>
   fst (log_failure m c (clear_failures (pytest_configure cfg initial_state))) = Returned ()"
  by (simp add: log_failure_eq clear_failures_def pytest_configure_def initial_state_def
      Let_def)

text \<open>
  C3, at a configuration with \<open>--check-max-fail=3\<close>, \<open>--check-max-report=2\<close>,
  \<open>--check-max-tb=1\<close> and \<open>maxfail=1\<close>: after the reset at the test boundary
  \<open>max_fail\<close>, \<open>max_report\<close> and \<open>max_traceback\<close> are \<open>None\<close>, not the configured
  values, and a recorded failure returns normally instead of escalating.
\<close>

theorem configured_limits_lost:
  "MAX_FAIL (clear_failures (pytest_configure
      \<lparr> isatty = False, color = ''no'', maxfail = 1, tbstyle = ''auto'',
        check_max_fail = Some 3, check_max_report = Some 2, check_max_tb = Some 1,
        check_no_tb = False \<rparr> initial_state)) = None \<and>
   MAX_REPORT (clear_failures (pytest_configure
      \<lparr> isatty = False, color = ''no'', maxfail = 1, tbstyle = ''auto'',
        check_max_fail = Some 3, check_max_report = Some 2, check_max_tb = Some 1,
        check_no_tb = False \<rparr> initial_state)) = None \<and>
   MAX_TB (clear_failures (pytest_configure
      \<lparr> isatty = False, color = ''no'', maxfail = 1, tbstyle = ''auto'',
        check_max_fail = Some 3, check_max_report = Some 2, check_max_tb = Some 1,
        check_no_tb = False \<rparr> initial_state)) = None \<and>
   fst (log_failure (PyStr ''x'') [] (clear_failures (pytest_configure
      \<lparr> isatty = False, color = ''no'', maxfail = 1, tbstyle = ''auto'',
        check_max_fail = Some 3, check_max_report = Some 2, check_max_tb = Some 1,
        check_no_tb = False \<rparr> initial_state))) = Returned ()"
  by (simp add: log_failure_eq clear_failures_def pytest_configure_def initial_state_def
      Let_def)

section \<open>The checked block\<close>

text \<open>
  What \<open>with check: body\<close> does when the body returns, and when it raises an assertion
  error while the block's own stop flag is off: the failure goes to \<open>log_failure\<close>, and the
  custom message is cleared only if that call returns.
\<close>

lemma with_check_returned:
  "body s = (Returned u, s1) \<Longrightarrow> with_check body s = (Returned (), s1\<lparr> check_msg := None \<rparr>)"
  by (simp add: with_check_def with_stmt_def CheckContextManager_exit_def)

lemma with_check_raised:
  assumes "body s = (Raised x, s1)" and "subclass_of (exc_type x) AssertionError"
    and "\<not> cm_STOP_ON_FAIL s1"
  shows "with_check body s =
     (case log_failure
             (PyStr (case check_msg s1 of Some m \<Rightarrow> m @ [newline] @ exc_str x
                                        | None \<Rightarrow> exc_str x)) [] s1 of
        (Raised e, s') \<Rightarrow> (Raised e, s')
      | (Returned u, s') \<Rightarrow> (Returned (), s'\<lparr> check_msg := None \<rparr>))"
  using assms
  by (simp add: with_check_def with_stmt_def CheckContextManager_exit_def log_failure_eq
      failure_text_def split: option.splits)

text \<open>
  C9, as the code has it. Stated as in the specification it fails when recording the
  failure escalates: with \<open>max_fail = 1\<close> and both stop flags off, the block whose body
  raises an assertion error is left by a raised max-fail error, not resumed, and the custom
  message is still set afterwards.
\<close>

theorem checked_block_escalation_keeps_msg_counterexample:
  "\<not> cm_STOP_ON_FAIL (CheckContextManager_call (Some ''custom'')
       (set_max_fail (Some 1) (clear_failures initial_state))) \<and>
   \<not> STOP_ON_FAIL (CheckContextManager_call (Some ''custom'')
       (set_max_fail (Some 1) (clear_failures initial_state))) \<and>
   fst (with_check (py_raise (PyExc AssertionError ''boom''))
     (CheckContextManager_call (Some ''custom'')
       (set_max_fail (Some 1) (clear_failures initial_state)))) =
     Raised (PyExc AssertionError ''pytest-check max fail of 1 reached'') \<and>
   check_msg (snd (with_check (py_raise (PyExc AssertionError ''boom''))
     (CheckContextManager_call (Some ''custom'')
       (set_max_fail (Some 1) (clear_failures initial_state))))) = Some ''custom''"
  by (simp add: with_check_def with_stmt_def CheckContextManager_exit_def py_raise_def
      CheckContextManager_call_def set_max_fail_def clear_failures_def initial_state_def
      log_failure_eq subclass_of_def AssertionError_def str_int_def digit_char_def)

text \<open>
  C9 (amended): on exit from a checked block, if the body raised nothing, the log is
  unchanged and the custom message is cleared. If the body raised an assertion error, the
  block's stop flag is off, and recording does not escalate (the log's stop flag is off and
  \<open>max_fail\<close> is not reached by this failure), then one failure is recorded: the counter
  grows by one and, within the reporting cap, one message is stored, the custom message
  (when set) joined by a newline with the failure text, trimmed of surrounding whitespace;
  the failure is suppressed and the custom message is cleared.
\<close>

theorem checked_block_exit:
  "(body s = (Returned (), s1) \<longrightarrow>
      with_check body s = (Returned (), s1\<lparr> check_msg := None \<rparr>)) \<and>
   (body s = (Raised x, s1) \<and> subclass_of (exc_type x) AssertionError \<and>
    \<not> cm_STOP_ON_FAIL s1 \<and> \<not> STOP_ON_FAIL s1 \<and>
    \<not> (truthy (MAX_FAIL s1) \<and> the (MAX_FAIL s1) \<le> NUM_FAILURES s1 + 1) \<longrightarrow>
      with_check body s =
        (Returned (),
         s1\<lparr> NUM_FAILURES := NUM_FAILURES s1 + 1,
             failures :=
               (if MAX_REPORT s1 = None \<or> NUM_FAILURES s1 + 1 \<le> the (MAX_REPORT s1)
                then failures s1 @
                  [failure_text (SHOULD_USE_COLOR s1)
                     (PyStr (case check_msg s1 of
                               Some m \<Rightarrow> m @ [newline] @ exc_str x
                             | None \<Rightarrow> exc_str x)) []]
                else failures s1),
             check_msg := None \<rparr>))"
proof (intro conjI impI)
  assume "body s = (Returned (), s1)"
  then show "with_check body s = (Returned (), s1\<lparr> check_msg := None \<rparr>)"
    by (rule with_check_returned)
next
  assume h: "body s = (Raised x, s1) \<and> subclass_of (exc_type x) AssertionError \<and>
    \<not> cm_STOP_ON_FAIL s1 \<and> \<not> STOP_ON_FAIL s1 \<and>
    \<not> (truthy (MAX_FAIL s1) \<and> the (MAX_FAIL s1) \<le> NUM_FAILURES s1 + 1)"
  then have b: "body s = (Raised x, s1)" and a: "subclass_of (exc_type x) AssertionError"
    and n: "\<not> cm_STOP_ON_FAIL s1" by simp_all
  show "with_check body s =
        (Returned (),
         s1\<lparr> NUM_FAILURES := NUM_FAILURES s1 + 1,
             failures :=
               (if MAX_REPORT s1 = None \<or> NUM_FAILURES s1 + 1 \<le> the (MAX_REPORT s1)
                then failures s1 @
                  [failure_text (SHOULD_USE_COLOR s1)
                     (PyStr (case check_msg s1 of
                               Some m \<Rightarrow> m @ [newline] @ exc_str x
                             | None \<Rightarrow> exc_str x)) []]
                else failures s1),
             check_msg := None \<rparr>)"
    using h by (simp add: with_check_raised [of body s x s1, OF b a n] log_failure_eq)
qed

theorem checked_block_exit_witness:
  "py_pass (CheckContextManager_call (Some ''custom'') (clear_failures initial_state)) =
     (Returned (), CheckContextManager_call (Some ''custom'') (clear_failures initial_state)) \<and>
   with_check py_pass
     (CheckContextManager_call (Some ''custom'') (clear_failures initial_state)) =
     (Returned (), clear_failures initial_state) \<and>
   py_raise (PyExc AssertionError ''boom'')
     (CheckContextManager_call (Some ''custom'') (clear_failures initial_state)) =
     (Raised (PyExc AssertionError ''boom''),
      CheckContextManager_call (Some ''custom'') (clear_failures initial_state)) \<and>
   subclass_of (exc_type (PyExc AssertionError ''boom'')) AssertionError \<and>
   \<not> cm_STOP_ON_FAIL (CheckContextManager_call (Some ''custom'') (clear_failures initial_state)) \<and>
   \<not> STOP_ON_FAIL (CheckContextManager_call (Some ''custom'') (clear_failures initial_state)) \<and>
   \<not> truthy (MAX_FAIL (CheckContextManager_call (Some ''custom'') (clear_failures initial_state))) \<and>
   with_check (py_raise (PyExc AssertionError ''boom''))
     (CheckContextManager_call (Some ''custom'') (clear_failures initial_state)) =
     (Returned (),
      (clear_failures initial_state)
        \<lparr> NUM_FAILURES := 1, failures := [''custom'' @ [newline] @ ''boom''] \<rparr>)"
  using checked_block_exit
    [where body = py_pass
       and s = "CheckContextManager_call (Some ''custom'') (clear_failures initial_state)"
       and ?s1.0 = "CheckContextManager_call (Some ''custom'') (clear_failures initial_state)"]
    checked_block_exit
    [where body = "py_raise (PyExc AssertionError ''boom'')"
       and s = "CheckContextManager_call (Some ''custom'') (clear_failures initial_state)"
       and x = "PyExc AssertionError ''boom''"
       and ?s1.0 = "CheckContextManager_call (Some ''custom'') (clear_failures initial_state)"]
  by (simp add: py_pass_def py_raise_def CheckContextManager_call_def clear_failures_def
      initial_state_def subclass_of_def AssertionError_def failure_text_def strip_def
      is_space_def newline_def)

section \<open>Escalation inside a checked block\<close>

text \<open>
  C6, as the code has it. Stated as in the specification it fails for a max-fail
  escalation: with \<open>max_fail = 1\<close> the failure recorded in the body escalates with counter
  \<open>1\<close>; the block catches that error, records it as a second failure with its text as a
  message, and the recording raises a new error naming \<open>2\<close>.
\<close>

theorem escalation_recorded_again_counterexample:
  "fst (log_failure (PyStr ''x'') [] (set_max_fail (Some 1) (clear_failures initial_state))) =
     Raised (PyExc AssertionError ''pytest-check max fail of 1 reached'') \<and>
   NUM_FAILURES (snd (log_failure (PyStr ''x'') []
      (set_max_fail (Some 1) (clear_failures initial_state)))) = 1 \<and>
   with_check (log_failure (PyStr ''x'') [])
      (set_max_fail (Some 1) (clear_failures initial_state)) =
     (Raised (PyExc AssertionError ''pytest-check max fail of 2 reached''),
      (set_max_fail (Some 1) (clear_failures initial_state))
        \<lparr> NUM_FAILURES := 2,
          failures := [''x'', ''pytest-check max fail of 1 reached''] \<rparr>)"
  by (simp add: with_check_def with_stmt_def CheckContextManager_exit_def log_failure_eq
      set_max_fail_def clear_failures_def initial_state_def failure_text_def str_int_def
      digit_char_def strip_def is_space_def subclass_of_def AssertionError_def)

text \<open>
  C6 (amended): let an escalation (an assertion error, with \<open>max_fail\<close> reached or the
  log's stop flag on) propagate out of the body of a checked block. If the block's own
  stop flag is on, the block does not catch it: the same error propagates and nothing is
  recorded. If the block's stop flag is off, the block catches it and hands it to
  \<open>log_failure\<close> like any assertion failure: the counter grows by one, the text of the
  escalation (after the custom message, when one is set) is stored within the reporting
  cap, and that call raises a new escalation, the max-fail error naming the new count or
  the stop-on-first-failure error, which is what leaves the block.
\<close>

theorem escalation_through_checked_block:
  assumes "body s = (Raised x, s1)" and "subclass_of (exc_type x) AssertionError"
    and "(truthy (MAX_FAIL s1) \<and> the (MAX_FAIL s1) \<le> NUM_FAILURES s1) \<or> STOP_ON_FAIL s1"
  shows "(cm_STOP_ON_FAIL s1 \<longrightarrow> with_check body s = (Raised x, s1\<lparr> check_msg := None \<rparr>)) \<and>
         (\<not> cm_STOP_ON_FAIL s1 \<longrightarrow>
            with_check body s =
              log_failure
                (PyStr (case check_msg s1 of
                          Some m \<Rightarrow> m @ [newline] @ exc_str x
                        | None \<Rightarrow> exc_str x)) [] s1 \<and>
            with_check body s =
              (if truthy (MAX_FAIL s1) \<and> the (MAX_FAIL s1) \<le> NUM_FAILURES s1 + 1
               then Raised (PyExc AssertionError
                      (''pytest-check max fail of '' @ str_int (NUM_FAILURES s1 + 1)
                         @ '' reached''))
               else Raised (PyExc AssertionError ''Stopping on first failure''),
               s1\<lparr> NUM_FAILURES := NUM_FAILURES s1 + 1,
                   failures :=
                     (if MAX_REPORT s1 = None \<or> NUM_FAILURES s1 + 1 \<le> the (MAX_REPORT s1)
                      then failures s1 @
                        [failure_text (SHOULD_USE_COLOR s1)
                           (PyStr (case check_msg s1 of
                                     Some m \<Rightarrow> m @ [newline] @ exc_str x
                                   | None \<Rightarrow> exc_str x)) []]
                      else failures s1) \<rparr>))"
proof (intro conjI impI)
  assume "cm_STOP_ON_FAIL s1"
  then show "with_check body s = (Raised x, s1\<lparr> check_msg := None \<rparr>)"
    using assms(1,2) by (simp add: with_check_def with_stmt_def CheckContextManager_exit_def)
next
  assume n: "\<not> cm_STOP_ON_FAIL s1"
  note w = with_check_raised [of body s x s1, OF assms(1) assms(2) n]
  show "with_check body s =
          log_failure
            (PyStr (case check_msg s1 of
                      Some m \<Rightarrow> m @ [newline] @ exc_str x
                    | None \<Rightarrow> exc_str x)) [] s1"
    using assms(3) by (auto simp: w log_failure_eq)
next
  assume n: "\<not> cm_STOP_ON_FAIL s1"
  note w = with_check_raised [of body s x s1, OF assms(1) assms(2) n]
  show "with_check body s =
          (if truthy (MAX_FAIL s1) \<and> the (MAX_FAIL s1) \<le> NUM_FAILURES s1 + 1
           then Raised (PyExc AssertionError
                  (''pytest-check max fail of '' @ str_int (NUM_FAILURES s1 + 1)
                     @ '' reached''))
           else Raised (PyExc AssertionError ''Stopping on first failure''),
           s1\<lparr> NUM_FAILURES := NUM_FAILURES s1 + 1,
               failures :=
                 (if MAX_REPORT s1 = None \<or> NUM_FAILURES s1 + 1 \<le> the (MAX_REPORT s1)
                  then failures s1 @
                    [failure_text (SHOULD_USE_COLOR s1)
                       (PyStr (case check_msg s1 of
                                 Some m \<Rightarrow> m @ [newline] @ exc_str x
                               | None \<Rightarrow> exc_str x)) []]
                  else failures s1) \<rparr>)"
    using assms(3) by (auto simp: w log_failure_eq)
qed

theorem escalation_through_checked_block_witness:
  "log_failure (PyStr ''x'') [] (set_max_fail (Some 1) (clear_failures initial_state)) =
     (Raised (PyExc AssertionError ''pytest-check max fail of 1 reached''),
      (set_max_fail (Some 1) (clear_failures initial_state))
        \<lparr> NUM_FAILURES := 1, failures := [''x''] \<rparr>) \<and>
   subclass_of (exc_type (PyExc AssertionError ''pytest-check max fail of 1 reached''))
     AssertionError \<and>
   \<not> cm_STOP_ON_FAIL ((set_max_fail (Some 1) (clear_failures initial_state))
        \<lparr> NUM_FAILURES := 1, failures := [''x''] \<rparr>) \<and>
   with_check (log_failure (PyStr ''x'') [])
      (set_max_fail (Some 1) (clear_failures initial_state)) =
     log_failure (PyStr ''pytest-check max fail of 1 reached'') []
       ((set_max_fail (Some 1) (clear_failures initial_state))
          \<lparr> NUM_FAILURES := 1, failures := [''x''] \<rparr>) \<and>
   with_check (log_failure (PyStr ''x'') [])
      (set_max_fail (Some 1) (clear_failures initial_state)) =
     (Raised (PyExc AssertionError ''pytest-check max fail of 2 reached''),
      (set_max_fail (Some 1) (clear_failures initial_state))
        \<lparr> NUM_FAILURES := 2,
          failures := [''x'', ''pytest-check max fail of 1 reached''] \<rparr>) \<and>
   log_failure (PyStr ''x'') []
      ((set_max_fail (Some 1) (clear_failures initial_state))\<lparr> cm_STOP_ON_FAIL := True \<rparr>) =
     (Raised (PyExc AssertionError ''pytest-check max fail of 1 reached''),
      (set_max_fail (Some 1) (clear_failures initial_state))
        \<lparr> cm_STOP_ON_FAIL := True, NUM_FAILURES := 1, failures := [''x''] \<rparr>) \<and>
   with_check (log_failure (PyStr ''x'') [])
      ((set_max_fail (Some 1) (clear_failures initial_state))\<lparr> cm_STOP_ON_FAIL := True \<rparr>) =
     (Raised (PyExc AssertionError ''pytest-check max fail of 1 reached''),
      (set_max_fail (Some 1) (clear_failures initial_state))
        \<lparr> cm_STOP_ON_FAIL := True, NUM_FAILURES := 1, failures := [''x''] \<rparr>)"
  using escalation_through_checked_block
    [where body = "log_failure (PyStr ''x'') []"
       and s = "set_max_fail (Some 1) (clear_failures initial_state)"
       and x = "PyExc AssertionError ''pytest-check max fail of 1 reached''"
       and ?s1.0 = "(set_max_fail (Some 1) (clear_failures initial_state))
           \<lparr> NUM_FAILURES := 1, failures := [''x''] \<rparr>"]
    escalation_through_checked_block
    [where body = "log_failure (PyStr ''x'') []"
       and s = "(set_max_fail (Some 1) (clear_failures initial_state))
           \<lparr> cm_STOP_ON_FAIL := True \<rparr>"
       and x = "PyExc AssertionError ''pytest-check max fail of 1 reached''"
       and ?s1.0 = "(set_max_fail (Some 1) (clear_failures initial_state))
           \<lparr> cm_STOP_ON_FAIL := True, NUM_FAILURES := 1, failures := [''x''] \<rparr>"]
  by (simp add: log_failure_eq set_max_fail_def clear_failures_def initial_state_def
      subclass_of_def AssertionError_def failure_text_def strip_def is_space_def str_int_def
      digit_char_def)

section \<open>The exception-expectation scope\<close>

text \<open>
  What leaving the scope does when the body raised \<open>x\<close> and the subclass test came out as
  \<open>b\<close>: a match is suppressed; a mismatch propagates when the module's stop flag is on and
  is otherwise handed to \<open>log_failure\<close>, whose outcome is the outcome of the scope.
\<close>

lemma raises_exit_eq:
  assumes "body s = (Raised x, s1)"
    and "issubclass_any (exc_type x) (expected_excs self) = Returned b"
  shows "with_stmt (CheckRaisesContext_exit self) body s =
     (if b then (Returned (), s1)
      else if raises_STOP_ON_FAIL s1 then (Raised x, s1)
      else log_failure (case msg self of
                          Some m \<Rightarrow> if m \<noteq> [] then PyStr m else PyExcVal x
                        | None \<Rightarrow> PyExcVal x) [] s1)"
  using assms
  by (auto simp: with_stmt_def CheckRaisesContext_exit_def log_failure_eq
      split: option.splits)

text \<open>
  C2, as the code has it. Stated as in the specification it fails for an unexpected
  exception while the stop flag is off: a scope expecting \<open>ValueError\<close> around a callable
  that raises \<open>TypeError('boom')\<close> returns normally, and the log holds one failure with
  the text of that exception.
\<close>

theorem unexpected_exception_swallowed_counterexample:
  "issubclass (exc_type (PyExc TypeError ''boom'')) (Type ValueError) = Returned False \<and>
   raises (Type ValueError) None []
     (Some (Callable (py_raise (PyExc TypeError ''boom'')))) (clear_failures initial_state) =
     (Returned NoValue,
      (clear_failures initial_state)\<lparr> NUM_FAILURES := 1, failures := [''boom''] \<rparr>)"
  by (simp add: raises_def kind_check_def with_stmt_def CheckRaisesContext_exit_def
      CheckRaisesContext_init_def py_raise_def clear_failures_def initial_state_def
      subclass_of_def ValueError_def TypeError_def log_failure_eq failure_text_def strip_def
      is_space_def)

text \<open>
  C2 (amended): when the body of an exception-expectation scope raises an exception whose
  type is one of the expected kinds (the type itself or a subclass), the scope suppresses
  it and the log is unchanged. When the type is not one of the expected kinds: with the
  module's stop-on-first-failure flag on, the exception propagates unchanged and is not
  recorded; with the flag off, the scope records it as one failure (the custom message if
  a non-empty one was given, otherwise the text of the exception) and does not let it
  propagate.
\<close>

theorem raises_scope_on_exception:
  assumes "body s = (Raised x, s1)"
    and "issubclass_any (exc_type x) (expected_excs self) = Returned b"
  shows "(b \<longrightarrow> with_stmt (CheckRaisesContext_exit self) body s = (Returned (), s1)) \<and>
         (\<not> b \<and> raises_STOP_ON_FAIL s1 \<longrightarrow>
            with_stmt (CheckRaisesContext_exit self) body s = (Raised x, s1)) \<and>
         (\<not> b \<and> \<not> raises_STOP_ON_FAIL s1 \<longrightarrow>
            with_stmt (CheckRaisesContext_exit self) body s =
              log_failure (case msg self of
                             Some m \<Rightarrow> if m \<noteq> [] then PyStr m else PyExcVal x
                           | None \<Rightarrow> PyExcVal x) [] s1 \<and>
            NUM_FAILURES (snd (with_stmt (CheckRaisesContext_exit self) body s)) =
              NUM_FAILURES s1 + 1)"
  by (simp add: raises_exit_eq [where body = body and s = s, OF assms] log_failure_eq)

theorem raises_scope_on_exception_witness:
  "py_raise (PyExc KeyError ''k'') (clear_failures initial_state) =
     (Raised (PyExc KeyError ''k''), clear_failures initial_state) \<and>
   issubclass_any (exc_type (PyExc KeyError ''k''))
     (expected_excs (CheckRaisesContext_init [Type LookupError] None)) = Returned True \<and>
   with_stmt (CheckRaisesContext_exit (CheckRaisesContext_init [Type LookupError] None))
     (py_raise (PyExc KeyError ''k'')) (clear_failures initial_state) =
     (Returned (), clear_failures initial_state) \<and>
   py_raise (PyExc TypeError ''boom'')
     ((clear_failures initial_state)\<lparr> raises_STOP_ON_FAIL := True \<rparr>) =
     (Raised (PyExc TypeError ''boom''),
      (clear_failures initial_state)\<lparr> raises_STOP_ON_FAIL := True \<rparr>) \<and>
   issubclass_any (exc_type (PyExc TypeError ''boom''))
     (expected_excs (CheckRaisesContext_init [Type LookupError] None)) = Returned False \<and>
   raises_STOP_ON_FAIL ((clear_failures initial_state)\<lparr> raises_STOP_ON_FAIL := True \<rparr>) \<and>
   with_stmt (CheckRaisesContext_exit (CheckRaisesContext_init [Type LookupError] None))
     (py_raise (PyExc TypeError ''boom''))
     ((clear_failures initial_state)\<lparr> raises_STOP_ON_FAIL := True \<rparr>) =
     (Raised (PyExc TypeError ''boom''),
      (clear_failures initial_state)\<lparr> raises_STOP_ON_FAIL := True \<rparr>) \<and>
   py_raise (PyExc TypeError ''boom'') (clear_failures initial_state) =
     (Raised (PyExc TypeError ''boom''), clear_failures initial_state) \<and>
   \<not> raises_STOP_ON_FAIL (clear_failures initial_state) \<and>
   with_stmt (CheckRaisesContext_exit (CheckRaisesContext_init [Type LookupError] None))
     (py_raise (PyExc TypeError ''boom'')) (clear_failures initial_state) =
     (Returned (), (clear_failures initial_state)\<lparr> NUM_FAILURES := 1, failures := [''boom''] \<rparr>)"
  using raises_scope_on_exception
    [where body = "py_raise (PyExc KeyError ''k'')" and s = "clear_failures initial_state"
       and x = "PyExc KeyError ''k''" and ?s1.0 = "clear_failures initial_state"
       and self = "CheckRaisesContext_init [Type LookupError] None" and b = True]
    raises_scope_on_exception
    [where body = "py_raise (PyExc TypeError ''boom'')"
       and s = "(clear_failures initial_state)\<lparr> raises_STOP_ON_FAIL := True \<rparr>"
       and x = "PyExc TypeError ''boom''"
       and ?s1.0 = "(clear_failures initial_state)\<lparr> raises_STOP_ON_FAIL := True \<rparr>"
       and self = "CheckRaisesContext_init [Type LookupError] None" and b = False]
    raises_scope_on_exception
    [where body = "py_raise (PyExc TypeError ''boom'')" and s = "clear_failures initial_state"
       and x = "PyExc TypeError ''boom''" and ?s1.0 = "clear_failures initial_state"
       and self = "CheckRaisesContext_init [Type LookupError] None" and b = False]
  by (simp add: py_raise_def CheckRaisesContext_init_def clear_failures_def initial_state_def
      subclass_of_def KeyError_def LookupError_def TypeError_def log_failure_eq
      failure_text_def strip_def is_space_def)

section \<open>Validation of the expected kinds\<close>

lemma all_kind_checks_non_type:
  "x \<in> set xs \<Longrightarrow> \<not> is_type x \<Longrightarrow>
     all_kind_checks xs = Raised (PyExc TypeError ''issubclass() arg 1 must be a class'')"
proof (induction xs)
  case Nil
  then show ?case by simp
next
  case (Cons y ys)
  show ?case
  proof (cases y)
    case (Type d)
    then have "x \<in> set ys" using Cons.prems by auto
    then show ?thesis using Cons.IH Cons.prems(2) Type by (simp add: kind_check_def)
  next
    case (Obj tn)
    then show ?thesis by (simp add: kind_check_def)
  next
    case (Tuple zs)
    then show ?thesis by (simp add: kind_check_def)
  qed
qed

text \<open>
  C4, as the code has it. Stated as in the specification it fails for the empty set of
  expected kinds: \<open>raises(())\<close> raises nothing and returns a scope handle.
\<close>

theorem raises_accepts_empty_counterexample:
  "raises (Tuple []) None [] None (clear_failures initial_state) =
     (Returned (Handle (CheckRaisesContext_init [Tuple []] None)), clear_failures initial_state)"
  by (simp add: raises_def)

text \<open>
  C4 (amended): invoking \<open>raises\<close> with a tuple of expected kinds one of whose elements is
  not a type reference raises an error at once, at the point of invocation: no handle is
  returned, the callable is not run, and the log is unchanged. The empty tuple of
  expected kinds is accepted and a handle is returned.
\<close>

theorem raises_validation:
  "(x \<in> set xs \<and> \<not> is_type x \<longrightarrow>
      raises (Tuple xs) m kwargs args s =
        (Raised (PyExc TypeError ''issubclass() arg 1 must be a class''), s)) \<and>
   raises (Tuple []) m [] None s =
     (Returned (Handle (CheckRaisesContext_init [Tuple []] m)), s)"
proof (intro conjI impI)
  assume "x \<in> set xs \<and> \<not> is_type x"
  then have "all_kind_checks xs = Raised (PyExc TypeError ''issubclass() arg 1 must be a class'')"
    using all_kind_checks_non_type by blast
  then show "raises (Tuple xs) m kwargs args s =
        (Raised (PyExc TypeError ''issubclass() arg 1 must be a class''), s)"
    by (simp add: raises_def)
next
  show "raises (Tuple []) m [] None s =
     (Returned (Handle (CheckRaisesContext_init [Tuple []] m)), s)"
    by (simp add: raises_def)
qed

theorem raises_validation_witness:
  "Obj ''int'' \<in> set [Type ValueError, Obj ''int''] \<and> \<not> is_type (Obj ''int'') \<and>
   raises (Tuple [Type ValueError, Obj ''int'']) None [] (Some (Callable py_pass))
     (clear_failures initial_state) =
     (Raised (PyExc TypeError ''issubclass() arg 1 must be a class''),
      clear_failures initial_state)"
  using raises_validation
    [where x = "Obj ''int''" and xs = "[Type ValueError, Obj ''int'']" and m = None
       and kwargs = "[]" and args = "Some (Callable py_pass)"
       and s = "clear_failures initial_state"]
  by simp

section \<open>A scope whose body raises nothing\<close>

lemma raises_scope_no_exception:
  assumes "body s = (Returned u, s1)"
  shows "with_stmt (CheckRaisesContext_exit self) body s =
     (if raises_STOP_ON_FAIL s1 then (Returned (), s1)
      else log_failure (case msg self of
                          Some m \<Rightarrow> if m \<noteq> [] then PyStr m else PyNone
                        | None \<Rightarrow> PyNone) [] s1)"
  using assms
  by (auto simp: with_stmt_def CheckRaisesContext_exit_def log_failure_eq
      split: option.splits)

text \<open>
  C5, at the failing input: a scope expecting \<open>ValueError\<close> whose body raises nothing,
  with stop-on-first-failure active. With the module's stop flag on, the scope returns
  normally and the log is unchanged: no failure is raised and none is recorded. With
  \<open>maxfail=1\<close> given to \<open>pytest_configure\<close> the scope returns normally as well.
\<close>

theorem raises_scope_silent_under_stop:
  "raises_STOP_ON_FAIL ((clear_failures initial_state)\<lparr> raises_STOP_ON_FAIL := True \<rparr>) \<and>
   with_stmt (CheckRaisesContext_exit (CheckRaisesContext_init [Type ValueError] None)) py_pass
     ((clear_failures initial_state)\<lparr> raises_STOP_ON_FAIL := True \<rparr>) =
     (Returned (), (clear_failures initial_state)\<lparr> raises_STOP_ON_FAIL := True \<rparr>) \<and>
   fst (with_stmt (CheckRaisesContext_exit (CheckRaisesContext_init [Type ValueError] None))
     py_pass
     (clear_failures (pytest_configure
        \<lparr> isatty = False, color = ''no'', maxfail = 1, tbstyle = ''auto'',
          check_max_fail = None, check_max_report = None, check_max_tb = Some 1,
          check_no_tb = False \<rparr> initial_state))) = Returned ()"
  by (simp add: with_stmt_def CheckRaisesContext_exit_def CheckRaisesContext_init_def
      py_pass_def log_failure_eq clear_failures_def pytest_configure_def initial_state_def
      Let_def)

end
